theory Spec2Isabelle
  imports Main "HOL-Library.Sublist"
begin

section \<open>Host-language values\<close>

text \<open>
  A string of the program is a \<^typ>\<open>string\<close>; text outside ASCII (the Korean messages
  of the source) is carried as its UTF-8 bytes, written \<open>CHR 0x..\<close>. No property below
  counts characters. An HTTP status is an \<^typ>\<open>int\<close>: the program only compares it
  and prints it. A value that may be \<open>undefined\<close> is an \<^typ>\<open>'a option\<close>,
  \<open>None\<close> for \<open>undefined\<close>.
\<close>

definition digitChar :: "nat \<Rightarrow> char" where
  "digitChar d = ''0123456789'' ! d"

function natToString :: "nat \<Rightarrow> string" where
  "natToString n =
     (if n < 10 then [digitChar n] else natToString (n div 10) @ [digitChar (n mod 10)])"
  by pat_completeness auto
termination
  by (relation "measure id") auto

declare natToString.simps [simp del]

text \<open>
  The template literal \<open>${status}\<close> on an integer of magnitude below \<open>10^21\<close>:
  the decimal numeral, with a sign when negative. From \<open>10^21\<close> on the program
  prints exponent notation (\<open>1e+21\<close>), which \<open>numberToString\<close> does not give; the
  status of a platform response is a 16-bit value, far below.
\<close>

definition numberToString :: "int \<Rightarrow> string" where
  "numberToString i =
     (if i < 0 then ''-'' @ natToString (nat (- i)) else natToString (nat i))"

text \<open>\<open>a ?? b\<close>: the left operand unless it is \<open>undefined\<close>.\<close>

definition nullishCoalesce :: "'a option \<Rightarrow> 'a option \<Rightarrow> 'a option" where
  "nullishCoalesce a b = (case a of Some x \<Rightarrow> Some x | None \<Rightarrow> b)"

section \<open>errors/errorCode.ts\<close>

datatype HttpErrorCodeName =
  BAD_REQUEST | UNAUTHORIZED | FORBIDDEN | NOT_FOUND | INTERNAL_SERVER_ERROR

fun HTTP_ERROR_CODE :: "HttpErrorCodeName \<Rightarrow> int" where
  "HTTP_ERROR_CODE BAD_REQUEST = 400"
| "HTTP_ERROR_CODE UNAUTHORIZED = 401"
| "HTTP_ERROR_CODE FORBIDDEN = 403"
| "HTTP_ERROR_CODE NOT_FOUND = 404"
| "HTTP_ERROR_CODE INTERNAL_SERVER_ERROR = 500"

text \<open>\<open>Object.values(HTTP_ERROR_CODE)\<close>, in the order the object literal lists its keys.\<close>

definition HTTP_ERROR_CODE_values :: "int list" where
  "HTTP_ERROR_CODE_values =
     map HTTP_ERROR_CODE [BAD_REQUEST, UNAUTHORIZED, FORBIDDEN, NOT_FOUND, INTERNAL_SERVER_ERROR]"

text \<open>
  The five default messages (in English: "The request is invalid.", "Authentication is
  required.", "You do not have access permission.", "The requested resource cannot be
  found.", "A server error has occurred.").
\<close>

definition MESSAGE_BAD_REQUEST :: string where
  "MESSAGE_BAD_REQUEST =
    [CHR 0xEC, CHR 0x9E, CHR 0x98, CHR 0xEB, CHR 0xAA, CHR 0xBB, CHR 0xEB, CHR 0x90, CHR 0x9C,
     CHR 0x20, CHR 0xEC, CHR 0x9A, CHR 0x94, CHR 0xEC, CHR 0xB2, CHR 0xAD, CHR 0xEC, CHR 0x9E,
     CHR 0x85, CHR 0xEB, CHR 0x8B, CHR 0x88, CHR 0xEB, CHR 0x8B, CHR 0xA4, CHR 0x2E]"

definition MESSAGE_UNAUTHORIZED :: string where
  "MESSAGE_UNAUTHORIZED =
    [CHR 0xEC, CHR 0x9D, CHR 0xB8, CHR 0xEC, CHR 0xA6, CHR 0x9D, CHR 0xEC, CHR 0x9D, CHR 0xB4,
     CHR 0x20, CHR 0xED, CHR 0x95, CHR 0x84, CHR 0xEC, CHR 0x9A, CHR 0x94, CHR 0xED, CHR 0x95,
     CHR 0xA9, CHR 0xEB, CHR 0x8B, CHR 0x88, CHR 0xEB, CHR 0x8B, CHR 0xA4, CHR 0x2E]"

definition MESSAGE_FORBIDDEN :: string where
  "MESSAGE_FORBIDDEN =
    [CHR 0xEC, CHR 0xA0, CHR 0x91, CHR 0xEA, CHR 0xB7, CHR 0xBC, CHR 0x20, CHR 0xEA, CHR 0xB6,
     CHR 0x8C, CHR 0xED, CHR 0x95, CHR 0x9C, CHR 0xEC, CHR 0x9D, CHR 0xB4, CHR 0x20, CHR 0xEC,
     CHR 0x97, CHR 0x86, CHR 0xEC, CHR 0x8A, CHR 0xB5, CHR 0xEB, CHR 0x8B, CHR 0x88, CHR 0xEB,
     CHR 0x8B, CHR 0xA4, CHR 0x2E]"

definition MESSAGE_NOT_FOUND :: string where
  "MESSAGE_NOT_FOUND =
    [CHR 0xEC, CHR 0x9A, CHR 0x94, CHR 0xEC, CHR 0xB2, CHR 0xAD, CHR 0xED, CHR 0x95, CHR 0x9C,
     CHR 0x20, CHR 0xEB, CHR 0xA6, CHR 0xAC, CHR 0xEC, CHR 0x86, CHR 0x8C, CHR 0xEC, CHR 0x8A,
     CHR 0xA4, CHR 0xEB, CHR 0xA5, CHR 0xBC, CHR 0x20, CHR 0xEC, CHR 0xB0, CHR 0xBE, CHR 0xEC,
     CHR 0x9D, CHR 0x84, CHR 0x20, CHR 0xEC, CHR 0x88, CHR 0x98, CHR 0x20, CHR 0xEC, CHR 0x97,
     CHR 0x86, CHR 0xEC, CHR 0x8A, CHR 0xB5, CHR 0xEB, CHR 0x8B, CHR 0x88, CHR 0xEB, CHR 0x8B,
     CHR 0xA4, CHR 0x2E]"

definition MESSAGE_INTERNAL_SERVER_ERROR :: string where
  "MESSAGE_INTERNAL_SERVER_ERROR =
    [CHR 0xEC, CHR 0x84, CHR 0x9C, CHR 0xEB, CHR 0xB2, CHR 0x84, CHR 0x20, CHR 0xEC, CHR 0x98,
     CHR 0xA4, CHR 0xEB, CHR 0xA5, CHR 0x98, CHR 0xEA, CHR 0xB0, CHR 0x80, CHR 0x20, CHR 0xEB,
     CHR 0xB0, CHR 0x9C, CHR 0xEC, CHR 0x83, CHR 0x9D, CHR 0xED, CHR 0x96, CHR 0x88, CHR 0xEC,
     CHR 0x8A, CHR 0xB5, CHR 0xEB, CHR 0x8B, CHR 0x88, CHR 0xEB, CHR 0x8B, CHR 0xA4, CHR 0x2E]"

text \<open>
  \<open>HTTP_ERROR_MESSAGE\<close>, an object keyed by the five codes; \<open>HTTP_ERROR_MESSAGE[status]\<close>
  is \<open>map_of HTTP_ERROR_MESSAGE status\<close>, \<open>undefined\<close> for a key the object lacks.
\<close>

definition HTTP_ERROR_MESSAGE :: "(int \<times> string) list" where
  "HTTP_ERROR_MESSAGE =
    [(HTTP_ERROR_CODE BAD_REQUEST, MESSAGE_BAD_REQUEST),
     (HTTP_ERROR_CODE UNAUTHORIZED, MESSAGE_UNAUTHORIZED),
     (HTTP_ERROR_CODE FORBIDDEN, MESSAGE_FORBIDDEN),
     (HTTP_ERROR_CODE NOT_FOUND, MESSAGE_NOT_FOUND),
     (HTTP_ERROR_CODE INTERNAL_SERVER_ERROR, MESSAGE_INTERNAL_SERVER_ERROR)]"

definition isKnownErrorCode :: "int \<Rightarrow> bool" where
  "isKnownErrorCode status_arg \<longleftrightarrow> status_arg \<in> set HTTP_ERROR_CODE_values"


section \<open>types/api.ts and the platform's request and response objects\<close>

text \<open>
  \<open>RequestOptions\<close> is \<open>RequestInit\<close> with the body retyped as
  \<open>JsonBody | FormData\<close>. A \<open>JsonBody\<close> is a value \<open>'j\<close> handed to
  \<open>JSON.stringify\<close>, a \<open>FormData\<close> an opaque payload \<open>'f\<close>. The remaining
  properties of the options object (\<open>method\<close> and the like) are a map from property
  names to values \<open>'v\<close> that the program passes on untouched.
\<close>

datatype ('j, 'f) RequestBody = JsonBody 'j | FormData 'f

text \<open>
  \<open>HeadersInit\<close> has three forms: a plain object from header names to values, a
  \<open>Headers\<close> instance, which holds its entries internally, and an array of arrays of
  strings (name and value pairs).
\<close>

datatype HeadersInit =
  HeadersRecord "string \<rightharpoonup> string"
| HeadersInstance "(string \<times> string) list"
| HeadersPairs "string list list"

text \<open>
  A property of the headers object that \<open>createHeaders\<close> builds: the string of a plain
  object's property, or the array that the spread of an array of pairs leaves under an
  index.
\<close>

datatype HeaderValue = HeaderText string | HeaderArray "string list"

record ('j, 'f, 'v) RequestOptions =
  body :: "('j, 'f) RequestBody option"
  headers :: "HeadersInit option"
  restOptions :: "string \<rightharpoonup> 'v"

text \<open>What \<open>fetch\<close> is given: \<open>BodyInit\<close> is JSON text or the payload itself.\<close>

datatype 'f BodyInit = BodyText string | BodyFormData 'f

record ('f, 'v) RequestInit =
  restInit :: "string \<rightharpoonup> 'v"
  headers :: "string \<rightharpoonup> HeaderValue"
  body :: "'f BodyInit option"

text \<open>
  A \<open>Response\<close>, as far as the program reads it: \<open>ok\<close>, \<open>status\<close> and the outcome
  of \<open>json()\<close>, \<open>None\<close> when that promise rejects (the body is not JSON). The two
  fields \<open>ok\<close> and \<open>status\<close> are independent, as they are for the program.
\<close>

record 'b Response =
  ok :: bool
  status :: int
  json :: "'b option"

text \<open>
  \<open>ServerErrorResponse\<close>: two optional string properties, \<open>None\<close> for one that is
  missing (or \<open>null\<close>, which \<open>??\<close> treats alike). A parsed body is an extension of
  this record, so the one value that \<open>json()\<close> yields can be read at this declared
  type on the error path and returned whole on the success path.
\<close>

record ServerErrorResponse =
  message :: "string option"
  error :: "string option"

text \<open>
  What a platform call throws: an \<open>Error\<close> instance, of which the program reads the
  message, or any other value, which \<open>instanceof Error\<close> sets apart and of which the
  program reads nothing.
\<close>

datatype 'x Thrown = ErrorInstance string | NonError 'x

section \<open>errors/ApiError.ts\<close>

record ApiError =
  name :: string
  message :: string
  status :: int
  errorCode :: "int option"
  endpoint :: "string option"

text \<open>"An unknown error has occurred. (status: " and the closing parenthesis around the code.\<close>

definition UNKNOWN_ERROR_PREFIX :: string where
  "UNKNOWN_ERROR_PREFIX =
    [CHR 0xEC, CHR 0x95, CHR 0x8C, CHR 0x20, CHR 0xEC, CHR 0x88, CHR 0x98, CHR 0x20, CHR 0xEC,
     CHR 0x97, CHR 0x86, CHR 0xEB, CHR 0x8A, CHR 0x94, CHR 0x20, CHR 0xEC, CHR 0x98, CHR 0xA4,
     CHR 0xEB, CHR 0xA5, CHR 0x98, CHR 0xEA, CHR 0xB0, CHR 0x80, CHR 0x20, CHR 0xEB, CHR 0xB0,
     CHR 0x9C, CHR 0xEC, CHR 0x83, CHR 0x9D, CHR 0xED, CHR 0x96, CHR 0x88, CHR 0xEC, CHR 0x8A,
     CHR 0xB5, CHR 0xEB, CHR 0x8B, CHR 0x88, CHR 0xEB, CHR 0x8B, CHR 0xA4, CHR 0x2E]
    @ '' (status: ''"

text \<open>
  \<open>getDefaultMessage\<close> returns what the table read or the template gives; a table read
  of a missing key would be \<open>undefined\<close>.
\<close>

definition getDefaultMessage :: "int \<Rightarrow> string option" where
  "getDefaultMessage status_arg =
     (if isKnownErrorCode status_arg then map_of HTTP_ERROR_MESSAGE status_arg
      else Some (UNKNOWN_ERROR_PREFIX @ numberToString status_arg @ '')''))"

text \<open>
  The constructor, on the three properties it destructures. \<open>super(errorMessage)\<close> sets
  the message to the string it is given and leaves the empty message of \<open>Error\<close> when
  given \<open>undefined\<close>.
\<close>

definition new_ApiError :: "int \<Rightarrow> string option \<Rightarrow> string option \<Rightarrow> ApiError" where
  "new_ApiError status_arg message_arg endpoint_arg =
     (let errorMessage = nullishCoalesce message_arg (getDefaultMessage status_arg)
      in \<lparr>name = ''ApiError'',
          message = (case errorMessage of Some m \<Rightarrow> m | None \<Rightarrow> ''''),
          status = status_arg,
          errorCode = (if isKnownErrorCode status_arg then Some status_arg else None),
          endpoint = endpoint_arg\<rparr>)"

definition isStatus :: "ApiError \<Rightarrow> int \<Rightarrow> bool" where
  "isStatus this status_arg \<longleftrightarrow> status this = status_arg"

definition isAuthError :: "ApiError \<Rightarrow> bool" where
  "isAuthError this \<longleftrightarrow> status this = 401 \<or> status this = 403"

definition isClientError :: "ApiError \<Rightarrow> bool" where
  "isClientError this \<longleftrightarrow> status this \<ge> 400 \<and> status this < 500"

definition isServerError :: "ApiError \<Rightarrow> bool" where
  "isServerError this \<longleftrightarrow> status this \<ge> 500 \<and> status this < 600"


section \<open>api/fetcher.ts\<close>

definition DEFAULT_HEADERS :: "string \<rightharpoonup> HeaderValue" where
  "DEFAULT_HEADERS = [''Content-Type'' \<mapsto> HeaderText ''application/json'']"

text \<open>
  \<open>{...obj}\<close> copies the own enumerable properties of \<open>obj\<close>: none for
  \<open>undefined\<close>, the properties of a plain object, none for a \<open>Headers\<close> instance
  (its entries are not properties), and for an array its elements under their indices.
\<close>

definition spread :: "HeadersInit option \<Rightarrow> (string \<rightharpoonup> HeaderValue)" where
  "spread obj =
     (case obj of
        None \<Rightarrow> Map.empty
      | Some (HeadersRecord properties) \<Rightarrow> (\<lambda>key. map_option HeaderText (properties key))
      | Some (HeadersInstance entries) \<Rightarrow> Map.empty
      | Some (HeadersPairs pairs) \<Rightarrow>
          map_of (zip (map natToString [0..<length pairs]) (map HeaderArray pairs)))"

text \<open>
  \<open>JSON.stringify\<close> belongs to the platform and is a parameter: on a value it throws
  (\<open>Inl\<close>; a cyclic object, a \<open>BigInt\<close> property) or returns the text (\<open>Inr\<close>).
  \<open>serializeBody\<close> does not catch what it throws.
\<close>

definition serializeBody ::
  "('j \<Rightarrow> 'x Thrown + string) \<Rightarrow> ('j, 'f) RequestBody option \<Rightarrow>
   'x Thrown + 'f BodyInit option" where
  "serializeBody JSON_stringify body_arg =
     (case body_arg of
        None \<Rightarrow> Inr None
      | Some (FormData payload) \<Rightarrow> Inr (Some (BodyFormData payload))
      | Some (JsonBody obj) \<Rightarrow>
          (case JSON_stringify obj of
             Inl thrown \<Rightarrow> Inl thrown
           | Inr text \<Rightarrow> Inr (Some (BodyText text))))"

definition createHeaders ::
  "HeadersInit option \<Rightarrow> ('j, 'f) RequestBody option \<Rightarrow> (string \<rightharpoonup> HeaderValue)" where
  "createHeaders customHeaders body_arg =
     (case body_arg of
        Some (FormData payload) \<Rightarrow> spread customHeaders
      | _ \<Rightarrow> DEFAULT_HEADERS ++ spread customHeaders)"

text \<open>
  What the program does to the outside, in order: a call of \<open>fetch\<close> with its two
  arguments, and a call of \<open>response.json()\<close>.
\<close>

datatype ('f, 'v) Effect = FetchCall string "('f, 'v) RequestInit" | JsonCall

definition extractErrorMessage ::
  "('m ServerErrorResponse_scheme) Response \<Rightarrow> string option \<times> ('f, 'v) Effect list" where
  "extractErrorMessage response =
     (case json response of
        Some errorBody \<Rightarrow>
          (nullishCoalesce (ServerErrorResponse.message errorBody) (error errorBody), [JsonCall])
      | None \<Rightarrow> (None, [JsonCall]))"

text \<open>"Network error: ", "A network error has occurred.", "The response cannot be parsed."\<close>

definition NETWORK_ERROR_PREFIX :: string where
  "NETWORK_ERROR_PREFIX =
    [CHR 0xEB, CHR 0x84, CHR 0xA4, CHR 0xED, CHR 0x8A, CHR 0xB8, CHR 0xEC, CHR 0x9B, CHR 0x8C,
     CHR 0xED, CHR 0x81, CHR 0xAC, CHR 0x20, CHR 0xEC, CHR 0x98, CHR 0xA4, CHR 0xEB, CHR 0xA5,
     CHR 0x98]
    @ '': ''"

definition NETWORK_ERROR_MESSAGE :: string where
  "NETWORK_ERROR_MESSAGE =
    [CHR 0xEB, CHR 0x84, CHR 0xA4, CHR 0xED, CHR 0x8A, CHR 0xB8, CHR 0xEC, CHR 0x9B, CHR 0x8C,
     CHR 0xED, CHR 0x81, CHR 0xAC, CHR 0x20, CHR 0xEC, CHR 0x98, CHR 0xA4, CHR 0xEB, CHR 0xA5,
     CHR 0x98, CHR 0xEA, CHR 0xB0, CHR 0x80, CHR 0x20, CHR 0xEB, CHR 0xB0, CHR 0x9C, CHR 0xEC,
     CHR 0x83, CHR 0x9D, CHR 0xED, CHR 0x96, CHR 0x88, CHR 0xEC, CHR 0x8A, CHR 0xB5, CHR 0xEB,
     CHR 0x8B, CHR 0x88, CHR 0xEB, CHR 0x8B, CHR 0xA4, CHR 0x2E]"

definition PARSE_ERROR_MESSAGE :: string where
  "PARSE_ERROR_MESSAGE =
    [CHR 0xEC, CHR 0x9D, CHR 0x91, CHR 0xEB, CHR 0x8B, CHR 0xB5, CHR 0xEC, CHR 0x9D, CHR 0x84,
     CHR 0x20, CHR 0xED, CHR 0x8C, CHR 0x8C, CHR 0xEC, CHR 0x8B, CHR 0xB1, CHR 0xED, CHR 0x95,
     CHR 0xA0, CHR 0x20, CHR 0xEC, CHR 0x88, CHR 0x98, CHR 0x20, CHR 0xEC, CHR 0x97, CHR 0x86,
     CHR 0xEC, CHR 0x8A, CHR 0xB5, CHR 0xEB, CHR 0x8B, CHR 0x88, CHR 0xEB, CHR 0x8B, CHR 0xA4,
     CHR 0x2E]"

text \<open>The default \<open>{}\<close> of the parameter \<open>options\<close>.\<close>

definition emptyOptions :: "('j, 'f, 'v) RequestOptions" where
  "emptyOptions = \<lparr>RequestOptions.body = None, headers = None, restOptions = Map.empty\<rparr>"

definition optionsOrDefault ::
  "('j, 'f, 'v) RequestOptions option \<Rightarrow> ('j, 'f, 'v) RequestOptions" where
  "optionsOrDefault options_arg =
     (case options_arg of None \<Rightarrow> emptyOptions | Some given \<Rightarrow> given)"

text \<open>
  The local \<open>fetchOptions\<close> of \<open>fetcher\<close>: the object literal evaluates
  \<open>createHeaders\<close>, which cannot throw, and then \<open>serializeBody\<close>, which can.
\<close>

definition fetchOptions ::
  "('j \<Rightarrow> 'x Thrown + string) \<Rightarrow> ('j, 'f, 'v) RequestOptions \<Rightarrow>
   'x Thrown + ('f, 'v) RequestInit" where
  "fetchOptions JSON_stringify options =
     (case serializeBody JSON_stringify (RequestOptions.body options) of
        Inl thrown \<Rightarrow> Inl thrown
      | Inr serialized \<Rightarrow>
          Inr \<lparr>restInit = restOptions options,
               headers = createHeaders (RequestOptions.headers options)
                           (RequestOptions.body options),
               body = serialized\<rparr>)"

text \<open>
  How the promise of \<open>fetcher\<close> is rejected: with an \<open>ApiError\<close> that \<open>fetcher\<close>
  constructs, or with a value that a platform call threw and \<open>fetcher\<close> did not catch.
\<close>

datatype 'x Rejection = ThrownApiError ApiError | ThrownOther "'x Thrown"

text \<open>
  \<open>fetcher\<close>. The platform's \<open>fetch\<close> is a parameter: given the endpoint and the
  request it either throws (\<open>Inl\<close>) or yields a response (\<open>Inr\<close>). The result is the
  settled promise, rejected (\<open>Inl\<close>) or fulfilled with a value or \<open>undefined\<close>
  (\<open>Inr\<close>), together with the effects performed, in order. Building the request
  stands outside every \<open>try\<close>, so what \<open>JSON.stringify\<close> throws rejects the promise
  as it is, before \<open>fetch\<close> is called. Every \<open>await\<close> of the source is a sequential
  step, and the promises awaited are taken to settle.
\<close>

definition fetcher ::
  "('j \<Rightarrow> 'x Thrown + string) \<Rightarrow>
   (string \<Rightarrow> ('f, 'v) RequestInit \<Rightarrow> 'x Thrown + ('m ServerErrorResponse_scheme) Response) \<Rightarrow>
   string \<Rightarrow> ('j, 'f, 'v) RequestOptions option \<Rightarrow>
   ('x Rejection + ('m ServerErrorResponse_scheme) option) \<times> ('f, 'v) Effect list" where
  "fetcher JSON_stringify fetch endpoint_arg options_arg =
     (case fetchOptions JSON_stringify (optionsOrDefault options_arg) of
        Inl uncaught \<Rightarrow> (Inl (ThrownOther uncaught), [])
      | Inr request \<Rightarrow>
          (case fetch endpoint_arg request of
             Inl thrown \<Rightarrow>
               (Inl (ThrownApiError (new_ApiError 0
                      (Some (case thrown of
                               ErrorInstance text \<Rightarrow> NETWORK_ERROR_PREFIX @ text
                             | NonError other \<Rightarrow> NETWORK_ERROR_MESSAGE))
                      (Some endpoint_arg))),
                [FetchCall endpoint_arg request])
           | Inr response \<Rightarrow>
               if \<not> ok response then
                 (let (errorMessage, effects) = extractErrorMessage response
                  in (Inl (ThrownApiError
                            (new_ApiError (Response.status response) errorMessage
                              (Some endpoint_arg))),
                      FetchCall endpoint_arg request # effects))
               else if Response.status response = 204 then
                 (Inr None, [FetchCall endpoint_arg request])
               else
                 (case json response of
                    Some parsed \<Rightarrow>
                      (Inr (Some parsed), [FetchCall endpoint_arg request, JsonCall])
                  | None \<Rightarrow>
                      (Inl (ThrownApiError
                             (new_ApiError (Response.status response) (Some PARSE_ERROR_MESSAGE)
                               (Some endpoint_arg))),
                       [FetchCall endpoint_arg request, JsonCall]))))"

section \<open>Vocabulary of the specification\<close>

text \<open>The requests handed to the transport and the number of body reads, from the effects.\<close>

fun fetchCalls :: "('f, 'v) Effect list \<Rightarrow> (string \<times> ('f, 'v) RequestInit) list" where
  "fetchCalls [] = []"
| "fetchCalls (FetchCall url request # rest) = (url, request) # fetchCalls rest"
| "fetchCalls (JsonCall # rest) = fetchCalls rest"

fun jsonCalls :: "('f, 'v) Effect list \<Rightarrow> nat" where
  "jsonCalls [] = 0"
| "jsonCalls (FetchCall url request # rest) = jsonCalls rest"
| "jsonCalls (JsonCall # rest) = Suc (jsonCalls rest)"

text \<open>
  The text by which the repository's test suite recognises a network failure
  ("Network error"): both network messages of \<open>fetcher\<close> begin with it.
\<close>

definition NETWORK_ERROR_INDICATOR :: string where
  "NETWORK_ERROR_INDICATOR =
    [CHR 0xEB, CHR 0x84, CHR 0xA4, CHR 0xED, CHR 0x8A, CHR 0xB8, CHR 0xEC, CHR 0x9B, CHR 0x8C,
     CHR 0xED, CHR 0x81, CHR 0xAC, CHR 0x20, CHR 0xEC, CHR 0x98, CHR 0xA4, CHR 0xEB, CHR 0xA5,
     CHR 0x98]"

text \<open>
  The specification's default message: the table text for one of the five known codes,
  else the generic message around the code.
\<close>

definition specDefaultMessage :: "int \<Rightarrow> string" where
  "specDefaultMessage code =
     (if code = 400 then MESSAGE_BAD_REQUEST
      else if code = 401 then MESSAGE_UNAUTHORIZED
      else if code = 403 then MESSAGE_FORBIDDEN
      else if code = 404 then MESSAGE_NOT_FOUND
      else if code = 500 then MESSAGE_INTERNAL_SERVER_ERROR
      else UNKNOWN_ERROR_PREFIX @ numberToString code @ '')'')"

text \<open>
  The specification's priority for the message of a failed response: the body's
  \<open>message\<close>, else its \<open>error\<close>, else the default; a body that is not JSON has
  neither.
\<close>

definition specErrorMessage :: "int \<Rightarrow> ('m ServerErrorResponse_scheme) option \<Rightarrow> string" where
  "specErrorMessage code parsed =
     (case parsed of
        None \<Rightarrow> specDefaultMessage code
      | Some errorBody \<Rightarrow>
          (case ServerErrorResponse.message errorBody of
             Some text \<Rightarrow> text
           | None \<Rightarrow>
               (case error errorBody of
                  Some text \<Rightarrow> text
                | None \<Rightarrow> specDefaultMessage code)))"

text \<open>Reading a decimal numeral back, to say that \<open>natToString\<close> writes one.\<close>

definition digitValue :: "char \<Rightarrow> nat" where
  "digitValue c = of_char c - 48"

definition readDecimal :: "string \<Rightarrow> nat" where
  "readDecimal cs = foldl (\<lambda>acc c. 10 * acc + digitValue c) 0 cs"







section \<open>Transports of the test suite\<close>

text \<open>
  The repository's tests replace \<open>fetch\<close> by a mock that, whatever the request,
  resolves with a given response or rejects with a given value. In the scenarios below
  a JSON request body is the empty object, whose JSON text is \<open>{}\<close>, or an object
  that contains itself, on which \<open>JSON.stringify\<close> throws a \<open>TypeError\<close>; payloads
  and option values are strings; a parsed body lists its further properties by name.
\<close>

datatype ScenarioJson = EmptyObject | CyclicObject

type_synonym ScenarioBody = "(string \<times> string) list ServerErrorResponse_scheme"

type_synonym ScenarioFetch =
  "string \<Rightarrow> (string, string) RequestInit \<Rightarrow> string Thrown + ScenarioBody Response"

definition mockResolvedValue :: "ScenarioBody Response \<Rightarrow> ScenarioFetch" where
  "mockResolvedValue response = (\<lambda>url request. Inr response)"

definition mockRejectedValue :: "string Thrown \<Rightarrow> ScenarioFetch" where
  "mockRejectedValue thrown = (\<lambda>url request. Inl thrown)"

definition stringifyScenario :: "ScenarioJson \<Rightarrow> string Thrown + string" where
  "stringifyScenario obj =
     (case obj of
        EmptyObject \<Rightarrow> Inr ''{}''
      | CyclicObject \<Rightarrow> Inl (ErrorInstance ''Converting circular structure to JSON''))"

section \<open>The known codes and the constructor\<close>

lemma digitValue_digitChar:
  assumes "d < 10"
  shows "digitValue (digitChar d) = d"
proof -
  from assms have "d \<in> {0, 1, 2, 3, 4, 5, 6, 7, 8, 9}" by auto
  then show ?thesis
    by (auto simp: digitChar_def digitValue_def)
qed

text \<open>The text printed for a status reads back as the status.\<close>

lemma readDecimal_natToString: "readDecimal (natToString n) = n"
proof (induction n rule: natToString.induct)
  case (1 n)
  show ?case
  proof (cases "n < 10")
    case True
    then show ?thesis
      by (simp add: natToString.simps [of n] readDecimal_def digitValue_digitChar)
  next
    case False
    with 1 have "readDecimal (natToString (n div 10)) = n div 10" by simp
    with False show ?thesis
      by (simp add: natToString.simps [of n] readDecimal_def digitValue_digitChar)
  qed
qed

lemma HTTP_ERROR_CODE_values_set:
  "set HTTP_ERROR_CODE_values = {400, 401, 403, 404, 500}"
  by (simp add: HTTP_ERROR_CODE_values_def)

lemma isKnownErrorCode_iff:
  "isKnownErrorCode s \<longleftrightarrow> s = 400 \<or> s = 401 \<or> s = 403 \<or> s = 404 \<or> s = 500"
  by (auto simp: isKnownErrorCode_def HTTP_ERROR_CODE_values_def)

lemma HTTP_ERROR_MESSAGE_lookup:
  "map_of HTTP_ERROR_MESSAGE s =
     (if s = 400 then Some MESSAGE_BAD_REQUEST
      else if s = 401 then Some MESSAGE_UNAUTHORIZED
      else if s = 403 then Some MESSAGE_FORBIDDEN
      else if s = 404 then Some MESSAGE_NOT_FOUND
      else if s = 500 then Some MESSAGE_INTERNAL_SERVER_ERROR
      else None)"
  by (simp add: HTTP_ERROR_MESSAGE_def)

text \<open>The table has a text for every known code, so the default message is never \<open>undefined\<close>.\<close>

lemma getDefaultMessage_spec: "getDefaultMessage s = Some (specDefaultMessage s)"
  by (simp add: getDefaultMessage_def isKnownErrorCode_iff HTTP_ERROR_MESSAGE_lookup
      specDefaultMessage_def)

lemma new_ApiError_fields:
  "status (new_ApiError s m p) = s"
  "endpoint (new_ApiError s m p) = p"
  "name (new_ApiError s m p) = ''ApiError''"
  "errorCode (new_ApiError s m p) = (if isKnownErrorCode s then Some s else None)"
  "message (new_ApiError s m p) = (case m of Some text \<Rightarrow> text | None \<Rightarrow> specDefaultMessage s)"
  by (simp_all add: new_ApiError_def Let_def nullishCoalesce_def getDefaultMessage_spec
      split: option.splits)

text \<open>
  C6: the classification predicates depend on the status alone. \<open>isAuthError\<close> holds
  exactly for 401 and 403 (so not for 0), \<open>isClientError\<close> exactly from 400 up to but
  not including 500, \<open>isServerError\<close> exactly from 500 up to but not including 600, and
  \<open>isStatus\<close> exactly when the status is the given code.
\<close>

theorem classification_by_status:
  "isAuthError e = (status e \<in> {401, 403})
   \<and> \<not> isAuthError (e\<lparr>status := 0\<rparr>)
   \<and> isClientError e = (400 \<le> status e \<and> status e < 500)
   \<and> isServerError e = (500 \<le> status e \<and> status e < 600)
   \<and> isStatus e code = (status e = code)"
  by (simp add: isAuthError_def isClientError_def isServerError_def isStatus_def)



text \<open>
  C10: an authentication error is a client error; no error is both a client and a
  server error; and each of the known codes, 400, 401, 403, 404 and 500, is a client
  or a server error.
\<close>

theorem classification_relations:
  "(isAuthError e \<longrightarrow> isClientError e)
   \<and> \<not> (isClientError e \<and> isServerError e)
   \<and> set HTTP_ERROR_CODE_values = {400, 401, 403, 404, 500}
   \<and> (status e \<in> set HTTP_ERROR_CODE_values \<longrightarrow> isClientError e \<or> isServerError e)"
  by (auto simp: isAuthError_def isClientError_def isServerError_def HTTP_ERROR_CODE_values_def)

theorem classification_relations_witness:
  "isAuthError (new_ApiError 403 None None) \<and> isClientError (new_ApiError 403 None None)
   \<and> \<not> isServerError (new_ApiError 403 None None)
   \<and> status (new_ApiError 500 None None) \<in> set HTTP_ERROR_CODE_values
   \<and> isServerError (new_ApiError 500 None None)"
  using classification_relations [of "new_ApiError 403 None None"]
    classification_relations [of "new_ApiError 500 None None"]
  by (simp add: isAuthError_def isClientError_def isServerError_def HTTP_ERROR_CODE_values_def
      new_ApiError_fields)


section \<open>The branches of fetcher\<close>

lemma fetchOptions_default:
  "fetchOptions JSON_stringify (optionsOrDefault None) =
     Inr \<lparr>restInit = Map.empty, headers = DEFAULT_HEADERS, body = None\<rparr>"
  by (simp add: fetchOptions_def optionsOrDefault_def emptyOptions_def serializeBody_def
      createHeaders_def spread_def)



lemma fetcher_thrown:
  assumes "fetchOptions JSON_stringify (optionsOrDefault options_arg) = Inr request"
    and "fetch endpoint_arg request = Inl thrown"
  shows "fetcher JSON_stringify fetch endpoint_arg options_arg =
           (Inl (ThrownApiError (new_ApiError 0
                  (Some (case thrown of
                           ErrorInstance text \<Rightarrow> NETWORK_ERROR_PREFIX @ text
                         | NonError other \<Rightarrow> NETWORK_ERROR_MESSAGE))
                  (Some endpoint_arg))),
            [FetchCall endpoint_arg request])"
  using assms by (simp add: fetcher_def)

lemma fetcher_not_ok:
  assumes "fetchOptions JSON_stringify (optionsOrDefault options_arg) = Inr request"
    and "fetch endpoint_arg request = Inr response"
    and "\<not> ok response"
  shows "fetcher JSON_stringify fetch endpoint_arg options_arg =
           (Inl (ThrownApiError (new_ApiError (Response.status response)
                  (case json response of
                     Some errorBody \<Rightarrow>
                       nullishCoalesce (ServerErrorResponse.message errorBody) (error errorBody)
                   | None \<Rightarrow> None)
                  (Some endpoint_arg))),
            [FetchCall endpoint_arg request, JsonCall])"
  using assms by (simp add: fetcher_def extractErrorMessage_def split: option.splits)

lemma fetcher_no_content:
  assumes "fetchOptions JSON_stringify (optionsOrDefault options_arg) = Inr request"
    and "fetch endpoint_arg request = Inr response"
    and "ok response" and "Response.status response = 204"
  shows "fetcher JSON_stringify fetch endpoint_arg options_arg =
           (Inr None, [FetchCall endpoint_arg request])"
  using assms by (simp add: fetcher_def)

lemma fetcher_parsed:
  assumes "fetchOptions JSON_stringify (optionsOrDefault options_arg) = Inr request"
    and "fetch endpoint_arg request = Inr response"
    and "ok response" and "Response.status response \<noteq> 204"
  shows "fetcher JSON_stringify fetch endpoint_arg options_arg =
           ((case json response of
               Some parsed \<Rightarrow> Inr (Some parsed)
             | None \<Rightarrow>
                 Inl (ThrownApiError
                       (new_ApiError (Response.status response) (Some PARSE_ERROR_MESSAGE)
                         (Some endpoint_arg)))),
            [FetchCall endpoint_arg request, JsonCall])"
  using assms by (simp add: fetcher_def split: option.splits)

lemma fetcher_fetchCalls:
  "fetchCalls (snd (fetcher JSON_stringify fetch endpoint_arg options_arg)) =
     (case fetchOptions JSON_stringify (optionsOrDefault options_arg) of
        Inl uncaught \<Rightarrow> []
      | Inr request \<Rightarrow> [(endpoint_arg, request)])"
  by (simp add: fetcher_def extractErrorMessage_def split: sum.splits option.splits)

lemma specErrorMessage_extract:
  "(case (case parsed of
            Some errorBody \<Rightarrow>
              nullishCoalesce (ServerErrorResponse.message errorBody) (error errorBody)
          | None \<Rightarrow> None) of
      Some text \<Rightarrow> text
    | None \<Rightarrow> specDefaultMessage code) = specErrorMessage code parsed"
  by (simp add: specErrorMessage_def nullishCoalesce_def split: option.splits)

lemma network_messages_indicator:
  "prefix NETWORK_ERROR_INDICATOR (NETWORK_ERROR_PREFIX @ text)"
  "prefix NETWORK_ERROR_INDICATOR NETWORK_ERROR_MESSAGE"
  by (simp_all add: NETWORK_ERROR_INDICATOR_def NETWORK_ERROR_PREFIX_def NETWORK_ERROR_MESSAGE_def)

text \<open>What the spread copies, form by form.\<close>

lemma spread_simps:
  "spread None = Map.empty"
  "spread (Some (HeadersInstance entries)) = Map.empty"
  "spread (Some (HeadersRecord Map.empty)) = Map.empty"
  "spread (Some (HeadersRecord (properties(key \<mapsto> val)))) =
     (spread (Some (HeadersRecord properties)))(key \<mapsto> HeaderText val)"
  "spread (Some (HeadersPairs [pair])) = [''0'' \<mapsto> HeaderArray pair]"
  by (auto simp: spread_def natToString.simps [of 0] digitChar_def fun_eq_iff)

lemma spread_record:
  "spread (Some (HeadersRecord custom)) =
     (\<lambda>key. case custom key of Some val \<Rightarrow> Some (HeaderText val) | None \<Rightarrow> None)"
  by (auto simp: spread_def fun_eq_iff split: option.splits)

lemma overlay_record:
  "DEFAULT_HEADERS ++
     (\<lambda>key. case custom key of Some val \<Rightarrow> Some (HeaderText val) | None \<Rightarrow> None) =
     (\<lambda>key. case custom key of
              Some val \<Rightarrow> Some (HeaderText val)
            | None \<Rightarrow> DEFAULT_HEADERS key)"
  by (auto simp: map_add_def fun_eq_iff split: option.splits)

section \<open>The claims about fetcher\<close>

text \<open>
  C1: when the request is built and the transport yields a response whose \<open>ok\<close> is
  false, \<open>fetcher\<close> raises an \<open>ApiError\<close> for the endpoint whose status is the
  response's status and whose message follows the specification's priority: the body's
  \<open>message\<close>, else its \<open>error\<close>, else the table text of a known status, else the
  generic text with the status in it. A body that is not JSON gives the same kind of
  error with the default message.
\<close>

theorem non_ok_response_raises_with_message_priority:
  assumes "fetchOptions JSON_stringify (optionsOrDefault options_arg) = Inr request"
    and "fetch endpoint_arg request = Inr response"
    and "\<not> ok response"
  shows "\<exists>e. fst (fetcher JSON_stringify fetch endpoint_arg options_arg) = Inl (ThrownApiError e)
           \<and> status e = Response.status response
           \<and> endpoint e = Some endpoint_arg
           \<and> message e = specErrorMessage (Response.status response) (json response)"
proof -
  have "fetcher JSON_stringify fetch endpoint_arg options_arg =
          (Inl (ThrownApiError (new_ApiError (Response.status response)
                 (case json response of
                    Some errorBody \<Rightarrow>
                      nullishCoalesce (ServerErrorResponse.message errorBody) (error errorBody)
                  | None \<Rightarrow> None)
                 (Some endpoint_arg))),
           [FetchCall endpoint_arg request, JsonCall])"
    using assms by (rule fetcher_not_ok)
  then show ?thesis
    by (simp add: new_ApiError_fields specErrorMessage_extract)
qed

theorem non_ok_response_raises_with_message_priority_witness:
  "(\<exists>e. fst (fetcher stringifyScenario
            (mockResolvedValue \<lparr>ok = False, status = 400,
               json = Some \<lparr>ServerErrorResponse.message = Some ''bad format'',
                             error = Some ''E42'', \<dots> = []\<rparr>\<rparr>)
            ''/api/users'' None) = Inl (ThrownApiError e)
        \<and> status e = 400 \<and> endpoint e = Some ''/api/users'' \<and> message e = ''bad format'')
   \<and> (\<exists>e. fst (fetcher stringifyScenario
            (mockResolvedValue \<lparr>ok = False, status = 404,
               json = Some \<lparr>ServerErrorResponse.message = None,
                             error = Some ''E42'', \<dots> = []\<rparr>\<rparr>)
            ''/api/users/999'' None) = Inl (ThrownApiError e)
        \<and> status e = 404 \<and> endpoint e = Some ''/api/users/999'' \<and> message e = ''E42'')
   \<and> (\<exists>e. fst (fetcher stringifyScenario
            (mockResolvedValue \<lparr>ok = False, status = 400, json = None\<rparr>)
            ''/api/users'' None) = Inl (ThrownApiError e)
        \<and> status e = 400 \<and> endpoint e = Some ''/api/users''
        \<and> message e = MESSAGE_BAD_REQUEST)
   \<and> (\<exists>e. fst (fetcher stringifyScenario
            (mockResolvedValue \<lparr>ok = False, status = 418,
               json = Some \<lparr>ServerErrorResponse.message = None, error = None, \<dots> = []\<rparr>\<rparr>)
            ''/api/teapot'' None) = Inl (ThrownApiError e)
        \<and> status e = 418 \<and> endpoint e = Some ''/api/teapot''
        \<and> message e = UNKNOWN_ERROR_PREFIX @ ''418)'')"
  using
    non_ok_response_raises_with_message_priority
      [where fetch = "mockResolvedValue \<lparr>ok = False, status = 400,
               json = Some \<lparr>ServerErrorResponse.message = Some ''bad format'',
                             error = Some ''E42'', \<dots> = []\<rparr>\<rparr>"
         and response = "\<lparr>ok = False, status = 400,
               json = Some \<lparr>ServerErrorResponse.message = Some ''bad format'',
                             error = Some ''E42'', \<dots> = []\<rparr>\<rparr>"
         and request = "\<lparr>restInit = Map.empty, headers = DEFAULT_HEADERS, body = None\<rparr>"
         and JSON_stringify = stringifyScenario
         and endpoint_arg = "''/api/users''" and options_arg = None]
    non_ok_response_raises_with_message_priority
      [where fetch = "mockResolvedValue \<lparr>ok = False, status = 404,
               json = Some \<lparr>ServerErrorResponse.message = None,
                             error = Some ''E42'', \<dots> = []\<rparr>\<rparr>"
         and response = "\<lparr>ok = False, status = 404,
               json = Some \<lparr>ServerErrorResponse.message = None,
                             error = Some ''E42'', \<dots> = []\<rparr>\<rparr>"
         and request = "\<lparr>restInit = Map.empty, headers = DEFAULT_HEADERS, body = None\<rparr>"
         and JSON_stringify = stringifyScenario
         and endpoint_arg = "''/api/users/999''" and options_arg = None]
    non_ok_response_raises_with_message_priority
      [where fetch = "mockResolvedValue \<lparr>ok = False, status = 400, json = None\<rparr>"
         and response = "\<lparr>ok = False, status = 400, json = None\<rparr>"
         and request = "\<lparr>restInit = Map.empty, headers = DEFAULT_HEADERS, body = None\<rparr>"
         and JSON_stringify = stringifyScenario
         and endpoint_arg = "''/api/users''" and options_arg = None]
    non_ok_response_raises_with_message_priority
      [where fetch = "mockResolvedValue \<lparr>ok = False, status = 418,
               json = Some \<lparr>ServerErrorResponse.message = None, error = None, \<dots> = []\<rparr>\<rparr>"
         and response = "\<lparr>ok = False, status = 418,
               json = Some \<lparr>ServerErrorResponse.message = None, error = None, \<dots> = []\<rparr>\<rparr>"
         and request = "\<lparr>restInit = Map.empty, headers = DEFAULT_HEADERS, body = None\<rparr>"
         and JSON_stringify = stringifyScenario
         and endpoint_arg = "''/api/teapot''" and options_arg = None]
  by (simp add: fetchOptions_default mockResolvedValue_def specErrorMessage_def
      specDefaultMessage_def numberToString_def natToString.simps digitChar_def)

text \<open>
  C2: when the request is built and the transport throws, \<open>fetcher\<close> raises an
  \<open>ApiError\<close> with status 0 for the endpoint, after the one call of \<open>fetch\<close> and
  nothing else. Its message begins with the network-failure text whatever was thrown,
  and is that text followed by the thrown error's own message when an \<open>Error\<close>
  instance was thrown.
\<close>

theorem transport_failure_raises_status_zero:
  assumes "fetchOptions JSON_stringify (optionsOrDefault options_arg) = Inr request"
    and "fetch endpoint_arg request = Inl thrown"
  shows "\<exists>e. fetcher JSON_stringify fetch endpoint_arg options_arg =
               (Inl (ThrownApiError e), [FetchCall endpoint_arg request])
           \<and> status e = 0
           \<and> endpoint e = Some endpoint_arg
           \<and> prefix NETWORK_ERROR_INDICATOR (message e)
           \<and> message e =
               (case thrown of
                  ErrorInstance text \<Rightarrow> NETWORK_ERROR_PREFIX @ text
                | NonError other \<Rightarrow> NETWORK_ERROR_MESSAGE)"
proof -
  have "fetcher JSON_stringify fetch endpoint_arg options_arg =
          (Inl (ThrownApiError (new_ApiError 0
                 (Some (case thrown of
                          ErrorInstance text \<Rightarrow> NETWORK_ERROR_PREFIX @ text
                        | NonError other \<Rightarrow> NETWORK_ERROR_MESSAGE))
                 (Some endpoint_arg))),
           [FetchCall endpoint_arg request])"
    using assms by (rule fetcher_thrown)
  then show ?thesis
    by (cases thrown) (simp_all add: new_ApiError_fields network_messages_indicator)
qed

theorem transport_failure_raises_status_zero_witness:
  "(\<exists>e. fetcher stringifyScenario (mockRejectedValue (ErrorInstance ''Failed to fetch''))
            ''/api/users'' None =
          (Inl (ThrownApiError e),
           [FetchCall ''/api/users''
              \<lparr>restInit = Map.empty, headers = DEFAULT_HEADERS, body = None\<rparr>])
        \<and> status e = 0 \<and> endpoint e = Some ''/api/users''
        \<and> prefix NETWORK_ERROR_INDICATOR (message e)
        \<and> message e = NETWORK_ERROR_PREFIX @ ''Failed to fetch'')
   \<and> (\<exists>e. fetcher stringifyScenario (mockRejectedValue (NonError ''offline''))
            ''/api/users'' None =
          (Inl (ThrownApiError e),
           [FetchCall ''/api/users''
              \<lparr>restInit = Map.empty, headers = DEFAULT_HEADERS, body = None\<rparr>])
        \<and> status e = 0 \<and> endpoint e = Some ''/api/users''
        \<and> prefix NETWORK_ERROR_INDICATOR (message e)
        \<and> message e = NETWORK_ERROR_MESSAGE)"
  using
    transport_failure_raises_status_zero
      [where fetch = "mockRejectedValue (ErrorInstance ''Failed to fetch'')"
         and thrown = "ErrorInstance ''Failed to fetch''"
         and request = "\<lparr>restInit = Map.empty, headers = DEFAULT_HEADERS, body = None\<rparr>"
         and JSON_stringify = stringifyScenario
         and endpoint_arg = "''/api/users''" and options_arg = None]
    transport_failure_raises_status_zero
      [where fetch = "mockRejectedValue (NonError ''offline'')"
         and thrown = "NonError ''offline''"
         and request = "\<lparr>restInit = Map.empty, headers = DEFAULT_HEADERS, body = None\<rparr>"
         and JSON_stringify = stringifyScenario
         and endpoint_arg = "''/api/users''" and options_arg = None]
  by (simp add: fetchOptions_default mockRejectedValue_def)

text \<open>
  C3: when the request is built and the transport yields a response whose \<open>ok\<close> is
  true and whose status is not 204, \<open>fetcher\<close> returns the value that \<open>json()\<close>
  yields, as it is; when \<open>json()\<close> fails, it raises an \<open>ApiError\<close> with the
  response's status and the message that the response cannot be parsed.
\<close>

theorem success_returns_parsed_body:
  assumes "fetchOptions JSON_stringify (optionsOrDefault options_arg) = Inr request"
    and "fetch endpoint_arg request = Inr response"
    and "ok response" and "Response.status response \<noteq> 204"
  shows "case json response of
           Some parsed \<Rightarrow>
             fst (fetcher JSON_stringify fetch endpoint_arg options_arg) = Inr (Some parsed)
         | None \<Rightarrow>
             (\<exists>e. fst (fetcher JSON_stringify fetch endpoint_arg options_arg) =
                    Inl (ThrownApiError e)
                \<and> status e = Response.status response
                \<and> message e = PARSE_ERROR_MESSAGE
                \<and> endpoint e = Some endpoint_arg)"
proof -
  have "fetcher JSON_stringify fetch endpoint_arg options_arg =
          ((case json response of
              Some parsed \<Rightarrow> Inr (Some parsed)
            | None \<Rightarrow>
                Inl (ThrownApiError
                      (new_ApiError (Response.status response) (Some PARSE_ERROR_MESSAGE)
                        (Some endpoint_arg)))),
           [FetchCall endpoint_arg request, JsonCall])"
    using assms by (rule fetcher_parsed)
  then show ?thesis
    by (simp add: new_ApiError_fields split: option.splits)
qed

theorem success_returns_parsed_body_witness:
  "fst (fetcher stringifyScenario
         (mockResolvedValue \<lparr>ok = True, status = 200,
            json = Some \<lparr>ServerErrorResponse.message = None, error = None,
                          \<dots> = [(''id'', ''1''), (''name'', ''Test User'')]\<rparr>\<rparr>)
         ''/api/users/1'' None) =
     Inr (Some \<lparr>ServerErrorResponse.message = None, error = None,
                \<dots> = [(''id'', ''1''), (''name'', ''Test User'')]\<rparr>)
   \<and> (\<exists>e. fst (fetcher stringifyScenario
            (mockResolvedValue \<lparr>ok = True, status = 200, json = None\<rparr>)
            ''/api/users/1'' None) = Inl (ThrownApiError e)
        \<and> status e = 200 \<and> message e = PARSE_ERROR_MESSAGE
        \<and> endpoint e = Some ''/api/users/1'')"
  using
    success_returns_parsed_body
      [where fetch = "mockResolvedValue \<lparr>ok = True, status = 200,
            json = Some \<lparr>ServerErrorResponse.message = None, error = None,
                          \<dots> = [(''id'', ''1''), (''name'', ''Test User'')]\<rparr>\<rparr>"
         and response = "\<lparr>ok = True, status = 200,
            json = Some \<lparr>ServerErrorResponse.message = None, error = None,
                          \<dots> = [(''id'', ''1''), (''name'', ''Test User'')]\<rparr>\<rparr>"
         and request = "\<lparr>restInit = Map.empty, headers = DEFAULT_HEADERS, body = None\<rparr>"
         and JSON_stringify = stringifyScenario
         and endpoint_arg = "''/api/users/1''" and options_arg = None]
    success_returns_parsed_body
      [where fetch = "mockResolvedValue \<lparr>ok = True, status = 200, json = None\<rparr>"
         and response = "\<lparr>ok = True, status = 200, json = None\<rparr>"
         and request = "\<lparr>restInit = Map.empty, headers = DEFAULT_HEADERS, body = None\<rparr>"
         and JSON_stringify = stringifyScenario
         and endpoint_arg = "''/api/users/1''" and options_arg = None]
  by (simp add: fetchOptions_default mockResolvedValue_def)

text \<open>
  C4: when the request is built and the transport yields a response whose \<open>ok\<close> is
  true and whose status is 204, \<open>fetcher\<close> returns \<open>undefined\<close>, and its only effect
  is the call of \<open>fetch\<close>: \<open>json()\<close> is not called.
\<close>

theorem no_content_returns_absence_without_reading:
  assumes "fetchOptions JSON_stringify (optionsOrDefault options_arg) = Inr request"
    and "fetch endpoint_arg request = Inr response"
    and "ok response" and "Response.status response = 204"
  shows "fst (fetcher JSON_stringify fetch endpoint_arg options_arg) = Inr None
         \<and> jsonCalls (snd (fetcher JSON_stringify fetch endpoint_arg options_arg)) = 0
         \<and> snd (fetcher JSON_stringify fetch endpoint_arg options_arg) =
             [FetchCall endpoint_arg request]"
proof -
  have "fetcher JSON_stringify fetch endpoint_arg options_arg =
          (Inr None, [FetchCall endpoint_arg request])"
    using assms by (rule fetcher_no_content)
  then show ?thesis by simp
qed

theorem no_content_returns_absence_without_reading_witness:
  "fst (fetcher stringifyScenario
         (mockResolvedValue \<lparr>ok = True, status = 204,
            json = Some \<lparr>ServerErrorResponse.message = Some ''unread'', error = None,
                          \<dots> = []\<rparr>\<rparr>)
         ''/api/users/1'' None) = Inr None
   \<and> jsonCalls (snd (fetcher stringifyScenario
         (mockResolvedValue \<lparr>ok = True, status = 204,
            json = Some \<lparr>ServerErrorResponse.message = Some ''unread'', error = None,
                          \<dots> = []\<rparr>\<rparr>)
         ''/api/users/1'' None)) = 0
   \<and> snd (fetcher stringifyScenario
         (mockResolvedValue \<lparr>ok = True, status = 204,
            json = Some \<lparr>ServerErrorResponse.message = Some ''unread'', error = None,
                          \<dots> = []\<rparr>\<rparr>)
         ''/api/users/1'' None) =
       [FetchCall ''/api/users/1''
          \<lparr>restInit = Map.empty, headers = DEFAULT_HEADERS, body = None\<rparr>]"
  using
    no_content_returns_absence_without_reading
      [where fetch = "mockResolvedValue \<lparr>ok = True, status = 204,
            json = Some \<lparr>ServerErrorResponse.message = Some ''unread'', error = None,
                          \<dots> = []\<rparr>\<rparr>"
         and response = "\<lparr>ok = True, status = 204,
            json = Some \<lparr>ServerErrorResponse.message = Some ''unread'', error = None,
                          \<dots> = []\<rparr>\<rparr>"
         and request = "\<lparr>restInit = Map.empty, headers = DEFAULT_HEADERS, body = None\<rparr>"
         and JSON_stringify = stringifyScenario
         and endpoint_arg = "''/api/users/1''" and options_arg = None]
  by (simp add: fetchOptions_default mockResolvedValue_def)

text \<open>
  C5, at inputs where it fails: headers given as a \<open>Headers\<close> instance or as an array
  of pairs, both of which \<open>HeadersInit\<close> admits, do not reach the transport. With a
  \<open>Headers\<close> instance holding \<open>Authorization\<close>, a call without a body transmits the
  default headers alone; with a JSON body and a \<open>Headers\<close> instance holding
  \<open>Content-Type: text/plain\<close> the transmitted \<open>Content-Type\<close> stays
  \<open>application/json\<close>; with a \<open>FormData\<close> body no header is transmitted at all. An
  array of pairs leaves the pair under the name \<open>0\<close> and no \<open>Authorization\<close>. The
  same header given in a plain object is transmitted.
\<close>

theorem headers_instance_is_not_overlaid:
  "fetchCalls (snd (fetcher stringifyScenario
       (mockResolvedValue \<lparr>ok = True, status = 200, json = None\<rparr>) ''/api/protected''
       (Some \<lparr>RequestOptions.body = None,
              headers = Some (HeadersInstance [(''Authorization'', ''Bearer token123'')]),
              restOptions = Map.empty\<rparr>))) =
     [(''/api/protected'', \<lparr>restInit = Map.empty, headers = DEFAULT_HEADERS, body = None\<rparr>)]
   \<and> DEFAULT_HEADERS ''Authorization'' = None
   \<and> fetchCalls (snd (fetcher stringifyScenario
       (mockResolvedValue \<lparr>ok = True, status = 200, json = None\<rparr>) ''/api/users''
       (Some \<lparr>RequestOptions.body = Some (JsonBody EmptyObject),
              headers = Some (HeadersInstance [(''Content-Type'', ''text/plain'')]),
              restOptions = Map.empty\<rparr>))) =
     [(''/api/users'',
       \<lparr>restInit = Map.empty, headers = DEFAULT_HEADERS, body = Some (BodyText ''{}'')\<rparr>)]
   \<and> DEFAULT_HEADERS ''Content-Type'' = Some (HeaderText ''application/json'')
   \<and> fetchCalls (snd (fetcher stringifyScenario
       (mockResolvedValue \<lparr>ok = True, status = 200, json = None\<rparr>) ''/api/upload''
       (Some \<lparr>RequestOptions.body = Some (FormData ''file=test.txt''),
              headers = Some (HeadersInstance [(''Authorization'', ''Bearer token123'')]),
              restOptions = Map.empty\<rparr>))) =
     [(''/api/upload'',
       \<lparr>restInit = Map.empty, headers = Map.empty,
        body = Some (BodyFormData ''file=test.txt'')\<rparr>)]
   \<and> fetchCalls (snd (fetcher stringifyScenario
       (mockResolvedValue \<lparr>ok = True, status = 200, json = None\<rparr>) ''/api/protected''
       (Some \<lparr>RequestOptions.body = None,
              headers = Some (HeadersPairs [[''Authorization'', ''Bearer token123'']]),
              restOptions = Map.empty\<rparr>))) =
     [(''/api/protected'',
       \<lparr>restInit = Map.empty,
        headers = DEFAULT_HEADERS(''0'' \<mapsto> HeaderArray [''Authorization'', ''Bearer token123'']),
        body = None\<rparr>)]
   \<and> (DEFAULT_HEADERS(''0'' \<mapsto> HeaderArray [''Authorization'', ''Bearer token123'']))
        ''Authorization'' = None
   \<and> fetchCalls (snd (fetcher stringifyScenario
       (mockResolvedValue \<lparr>ok = True, status = 200, json = None\<rparr>) ''/api/protected''
       (Some \<lparr>RequestOptions.body = None,
              headers = Some (HeadersRecord [''Authorization'' \<mapsto> ''Bearer token123'']),
              restOptions = Map.empty\<rparr>))) =
     [(''/api/protected'',
       \<lparr>restInit = Map.empty,
        headers = DEFAULT_HEADERS(''Authorization'' \<mapsto> HeaderText ''Bearer token123''),
        body = None\<rparr>)]"
  by (simp add: fetcher_fetchCalls fetchOptions_def optionsOrDefault_def serializeBody_def
      createHeaders_def spread_simps stringifyScenario_def DEFAULT_HEADERS_def)

text \<open>
  Beyond the claims, the part of C5 that holds: with the caller's headers in a plain
  object (or none), every call whose body \<open>JSON.stringify\<close> accepts hands the
  transport one request. A JSON body goes out as the text \<open>JSON.stringify\<close> gives,
  under the default \<open>Content-Type: application/json\<close> overlaid with the caller's
  headers, the caller's value winning for a name both have; a \<open>FormData\<close> body goes
  out as it is under exactly the caller's headers; with no body none is transmitted.
  The other options pass through.
\<close>

theorem request_body_and_plain_headers:
  "fetchCalls (snd (fetcher JSON_stringify fetch endpoint_arg
       (Some \<lparr>RequestOptions.body = Some (JsonBody obj),
              headers = Some (HeadersRecord custom), restOptions = others\<rparr>))) =
     (case JSON_stringify obj of
        Inl thrown \<Rightarrow> []
      | Inr text \<Rightarrow>
          [(endpoint_arg,
            \<lparr>restInit = others,
             headers = (\<lambda>key. case custom key of
                                Some val \<Rightarrow> Some (HeaderText val)
                              | None \<Rightarrow> DEFAULT_HEADERS key),
             body = Some (BodyText text)\<rparr>)])
   \<and> fetchCalls (snd (fetcher JSON_stringify fetch endpoint_arg
       (Some \<lparr>RequestOptions.body = Some (JsonBody obj),
              headers = None, restOptions = others\<rparr>))) =
     (case JSON_stringify obj of
        Inl thrown \<Rightarrow> []
      | Inr text \<Rightarrow>
          [(endpoint_arg,
            \<lparr>restInit = others, headers = DEFAULT_HEADERS, body = Some (BodyText text)\<rparr>)])
   \<and> fetchCalls (snd (fetcher JSON_stringify fetch endpoint_arg
       (Some \<lparr>RequestOptions.body = Some (FormData payload),
              headers = Some (HeadersRecord custom), restOptions = others\<rparr>))) =
     [(endpoint_arg,
       \<lparr>restInit = others,
        headers = (\<lambda>key. case custom key of
                           Some val \<Rightarrow> Some (HeaderText val)
                         | None \<Rightarrow> None),
        body = Some (BodyFormData payload)\<rparr>)]
   \<and> fetchCalls (snd (fetcher JSON_stringify fetch endpoint_arg
       (Some \<lparr>RequestOptions.body = Some (FormData payload),
              headers = None, restOptions = others\<rparr>))) =
     [(endpoint_arg,
       \<lparr>restInit = others, headers = Map.empty, body = Some (BodyFormData payload)\<rparr>)]
   \<and> fetchCalls (snd (fetcher JSON_stringify fetch endpoint_arg
       (Some \<lparr>RequestOptions.body = None,
              headers = Some (HeadersRecord custom), restOptions = others\<rparr>))) =
     [(endpoint_arg,
       \<lparr>restInit = others,
        headers = (\<lambda>key. case custom key of
                           Some val \<Rightarrow> Some (HeaderText val)
                         | None \<Rightarrow> DEFAULT_HEADERS key),
        body = None\<rparr>)]
   \<and> fetchCalls (snd (fetcher JSON_stringify fetch endpoint_arg None)) =
     [(endpoint_arg, \<lparr>restInit = Map.empty, headers = DEFAULT_HEADERS, body = None\<rparr>)]
   \<and> DEFAULT_HEADERS = [''Content-Type'' \<mapsto> HeaderText ''application/json'']"
  by (simp add: fetcher_fetchCalls fetchOptions_def optionsOrDefault_def emptyOptions_def
      serializeBody_def createHeaders_def overlay_record spread_record spread_simps
      split: sum.splits)
    (simp add: DEFAULT_HEADERS_def)

theorem request_body_and_plain_headers_witness:
  "fetchCalls (snd (fetcher stringifyScenario
       (mockResolvedValue \<lparr>ok = True, status = 201, json = None\<rparr>) ''/api/users''
       (Some \<lparr>RequestOptions.body = Some (JsonBody EmptyObject),
              headers = Some (HeadersRecord
                [''Authorization'' \<mapsto> ''Bearer token123'', ''Content-Type'' \<mapsto> ''text/plain'']),
              restOptions = [''method'' \<mapsto> ''POST'']\<rparr>))) =
     [(''/api/users'',
       \<lparr>restInit = [''method'' \<mapsto> ''POST''],
        headers = [''Content-Type'' \<mapsto> HeaderText ''text/plain'',
                   ''Authorization'' \<mapsto> HeaderText ''Bearer token123''],
        body = Some (BodyText ''{}'')\<rparr>)]
   \<and> fetchCalls (snd (fetcher stringifyScenario
       (mockResolvedValue \<lparr>ok = True, status = 200, json = None\<rparr>) ''/api/upload''
       (Some \<lparr>RequestOptions.body = Some (FormData ''file=test.txt''),
              headers = Some (HeadersRecord [''Authorization'' \<mapsto> ''Bearer token123'']),
              restOptions = [''method'' \<mapsto> ''POST'']\<rparr>))) =
     [(''/api/upload'',
       \<lparr>restInit = [''method'' \<mapsto> ''POST''],
        headers = [''Authorization'' \<mapsto> HeaderText ''Bearer token123''],
        body = Some (BodyFormData ''file=test.txt'')\<rparr>)]"
proof -
  have json_headers:
    "(\<lambda>key. case [''Authorization'' \<mapsto> ''Bearer token123'',
                       ''Content-Type'' \<mapsto> ''text/plain''] key of
              Some val \<Rightarrow> Some (HeaderText val)
            | None \<Rightarrow> DEFAULT_HEADERS key) =
     [''Content-Type'' \<mapsto> HeaderText ''text/plain'',
      ''Authorization'' \<mapsto> HeaderText ''Bearer token123'']"
    by (rule ext) (simp add: DEFAULT_HEADERS_def)
  have form_headers:
    "(\<lambda>key. case [''Authorization'' \<mapsto> ''Bearer token123''] key of
              Some val \<Rightarrow> Some (HeaderText val)
            | None \<Rightarrow> None) =
     [''Authorization'' \<mapsto> HeaderText ''Bearer token123'']"
    by (rule ext) simp
  have json_call:
    "fetchCalls (snd (fetcher stringifyScenario
       (mockResolvedValue \<lparr>ok = True, status = 201, json = None\<rparr>) ''/api/users''
       (Some \<lparr>RequestOptions.body = Some (JsonBody EmptyObject),
              headers = Some (HeadersRecord
                [''Authorization'' \<mapsto> ''Bearer token123'', ''Content-Type'' \<mapsto> ''text/plain'']),
              restOptions = [''method'' \<mapsto> ''POST'']\<rparr>))) =
     [(''/api/users'',
       \<lparr>restInit = [''method'' \<mapsto> ''POST''],
        headers = (\<lambda>key. case [''Authorization'' \<mapsto> ''Bearer token123'',
                                   ''Content-Type'' \<mapsto> ''text/plain''] key of
                           Some val \<Rightarrow> Some (HeaderText val)
                         | None \<Rightarrow> DEFAULT_HEADERS key),
        body = Some (BodyText ''{}'')\<rparr>)]"
    using
      request_body_and_plain_headers
        [where JSON_stringify = stringifyScenario
           and fetch = "mockResolvedValue \<lparr>ok = True, status = 201, json = None\<rparr>"
           and endpoint_arg = "''/api/users''"
           and obj = EmptyObject
           and custom = "[''Authorization'' \<mapsto> ''Bearer token123'',
                          ''Content-Type'' \<mapsto> ''text/plain'']"
           and others = "[''method'' \<mapsto> ''POST'']"
           and payload = "''file=test.txt''"]
    by (simp add: stringifyScenario_def)
  have form_call:
    "fetchCalls (snd (fetcher stringifyScenario
       (mockResolvedValue \<lparr>ok = True, status = 200, json = None\<rparr>) ''/api/upload''
       (Some \<lparr>RequestOptions.body = Some (FormData ''file=test.txt''),
              headers = Some (HeadersRecord [''Authorization'' \<mapsto> ''Bearer token123'']),
              restOptions = [''method'' \<mapsto> ''POST'']\<rparr>))) =
     [(''/api/upload'',
       \<lparr>restInit = [''method'' \<mapsto> ''POST''],
        headers = (\<lambda>key. case [''Authorization'' \<mapsto> ''Bearer token123''] key of
                           Some val \<Rightarrow> Some (HeaderText val)
                         | None \<Rightarrow> None),
        body = Some (BodyFormData ''file=test.txt'')\<rparr>)]"
    using
      request_body_and_plain_headers
        [where JSON_stringify = stringifyScenario
           and fetch = "mockResolvedValue \<lparr>ok = True, status = 200, json = None\<rparr>"
           and endpoint_arg = "''/api/upload''"
           and obj = EmptyObject
           and custom = "[''Authorization'' \<mapsto> ''Bearer token123'']"
           and others = "[''method'' \<mapsto> ''POST'']"
           and payload = "''file=test.txt''"]
    by (simp add: stringifyScenario_def)
  from json_call [unfolded json_headers] form_call [unfolded form_headers]
  show ?thesis by (rule conjI)
qed




text \<open>
  C9: when the request is built and a response whose \<open>ok\<close> is false has a JSON body
  whose \<open>message\<close> is the empty string, the raised error's message is the empty
  string, whatever the body's \<open>error\<close> and the status are: the empty string is not
  \<open>undefined\<close>, so neither \<open>??\<close> moves on.
\<close>

theorem empty_message_is_kept:
  assumes "fetchOptions JSON_stringify (optionsOrDefault options_arg) = Inr request"
    and "fetch endpoint_arg request = Inr response"
    and "\<not> ok response"
    and "json response = Some errorBody"
    and "ServerErrorResponse.message errorBody = Some ''''"
  shows "\<exists>e. fst (fetcher JSON_stringify fetch endpoint_arg options_arg) = Inl (ThrownApiError e)
           \<and> status e = Response.status response
           \<and> message e = ''''"
proof -
  have "fetcher JSON_stringify fetch endpoint_arg options_arg =
          (Inl (ThrownApiError (new_ApiError (Response.status response)
                 (case json response of
                    Some errorBody \<Rightarrow>
                      nullishCoalesce (ServerErrorResponse.message errorBody) (error errorBody)
                  | None \<Rightarrow> None)
                 (Some endpoint_arg))),
           [FetchCall endpoint_arg request, JsonCall])"
    using assms(1,2,3) by (rule fetcher_not_ok)
  then show ?thesis
    using assms(4,5) by (simp add: new_ApiError_fields nullishCoalesce_def)
qed

theorem empty_message_is_kept_witness:
  "\<exists>e. fst (fetcher stringifyScenario
          (mockResolvedValue \<lparr>ok = False, status = 400,
             json = Some \<lparr>ServerErrorResponse.message = Some '''',
                           error = Some ''E42'', \<dots> = []\<rparr>\<rparr>)
          ''/api/users'' None) = Inl (ThrownApiError e)
      \<and> status e = 400 \<and> message e = ''''
      \<and> message e \<noteq> ''E42'' \<and> message e \<noteq> MESSAGE_BAD_REQUEST"
  using
    empty_message_is_kept
      [where fetch = "mockResolvedValue \<lparr>ok = False, status = 400,
             json = Some \<lparr>ServerErrorResponse.message = Some '''',
                           error = Some ''E42'', \<dots> = []\<rparr>\<rparr>"
         and response = "\<lparr>ok = False, status = 400,
             json = Some \<lparr>ServerErrorResponse.message = Some '''',
                           error = Some ''E42'', \<dots> = []\<rparr>\<rparr>"
         and errorBody = "\<lparr>ServerErrorResponse.message = Some '''',
                           error = Some ''E42'', \<dots> = []\<rparr>"
         and request = "\<lparr>restInit = Map.empty, headers = DEFAULT_HEADERS, body = None\<rparr>"
         and JSON_stringify = stringifyScenario
         and endpoint_arg = "''/api/users''" and options_arg = None]
  by (auto simp add: fetchOptions_default mockResolvedValue_def MESSAGE_BAD_REQUEST_def)

text \<open>
  Beyond the claims, from the test suite: every \<open>ApiError\<close> that \<open>fetcher\<close> raises is
  an \<open>ApiError\<close> by name and carries the endpoint of the call.
\<close>

theorem raised_error_carries_endpoint:
  assumes "fst (fetcher JSON_stringify fetch endpoint_arg options_arg) = Inl (ThrownApiError e)"
  shows "endpoint e = Some endpoint_arg \<and> name e = ''ApiError''"
  using assms
  by (auto simp: fetcher_def extractErrorMessage_def new_ApiError_fields
      split: sum.splits option.splits if_splits)

theorem raised_error_carries_endpoint_witness:
  "fst (fetcher stringifyScenario
         (mockResolvedValue \<lparr>ok = False, status = 404,
            json = Some \<lparr>ServerErrorResponse.message = None, error = None, \<dots> = []\<rparr>\<rparr>)
         ''/api/users/123'' None) =
     Inl (ThrownApiError (new_ApiError 404 None (Some ''/api/users/123'')))
   \<and> endpoint (new_ApiError 404 None (Some ''/api/users/123'')) = Some ''/api/users/123''
   \<and> name (new_ApiError 404 None (Some ''/api/users/123'')) = ''ApiError''"
proof -
  have raised: "fst (fetcher stringifyScenario
         (mockResolvedValue \<lparr>ok = False, status = 404,
            json = Some \<lparr>ServerErrorResponse.message = None, error = None, \<dots> = []\<rparr>\<rparr>)
         ''/api/users/123'' None) =
     Inl (ThrownApiError (new_ApiError 404 None (Some ''/api/users/123'')))"
    by (simp add: fetcher_def fetchOptions_default extractErrorMessage_def
        mockResolvedValue_def nullishCoalesce_def)
  from raised raised_error_carries_endpoint [OF raised] show ?thesis by simp
qed

end
